theory Spec2Isabelle
  imports Complex_Main "HOL-Library.AList"
begin

section \<open>The Groq completion node: data\<close>

text \<open>
  The node \<^verbatim>\<open>GroqAPILLM\<close> of \<^verbatim>\<open>src/nodes/groq_api_llm.py\<close> keeps multi-turn
  chat histories in a \<^verbatim>\<open>ChatHistoryManager\<close> and sends one completion request per
  call of \<^verbatim>\<open>process_completion_request\<close>.

  A chat message is the Python dict \<^verbatim>\<open>{"role": ..., "content": ...}\<close>. The roles the
  node writes are the string literals \<^verbatim>\<open>"system"\<close>, \<^verbatim>\<open>"user"\<close> and
  \<^verbatim>\<open>"assistant"\<close>.
\<close>

record message =
  role :: string
  content :: string

text \<open>
  The twelve parameters of \<^verbatim>\<open>process_completion_request\<close>, typed as
  \<^verbatim>\<open>INPUT_TYPES\<close> declares them. The two \<^verbatim>\<open>FLOAT\<close> inputs are only stored in
  the request body, never computed with, so any carrier of their values will do.
\<close>

type_synonym pyfloat = real

record inputs =
  model :: string
  preset :: string
  system_message :: string
  user_input :: string
  temperature :: pyfloat
  max_tokens :: int
  top_p :: pyfloat
  seed :: int
  max_retries :: int
  stop :: string
  json_mode :: bool
  conversation_id :: string

text \<open>
  The values of the request body \<^verbatim>\<open>data\<close>: strings, integers, floats and the
  list of messages. A Python dict keeps its keys in insertion order, so the body is an
  association list.
\<close>

datatype pvalue = PStr string | PInt int | PFloat pyfloat | PMessages "message list"

type_synonym payload = "(string \<times> pvalue) list"

record request =
  req_data :: payload
  req_headers :: "(string \<times> string) list"
  req_url :: string

text \<open>
  One attempt at the endpoint, as the retry helper sees it: it succeeded with the
  generated text and a status, or it failed (a status that is not a success, or a network
  fault) with an error text and a status.
\<close>

datatype attempt =
  succeeded: Succeeded (attempt_text: string) (attempt_status: string)
  | failed: Failed (attempt_text: string) (attempt_status: string)

text \<open>
  What the retry helper depends on outside the program: \<open>outcome r k\<close> is the outcome of
  the attempt at the request \<open>r\<close> that is made after \<open>k\<close> earlier ones. The spec
  names no result for a run of the helper that makes no attempt at all, so this result is
  not fixed here either: it is the parameter \<open>unattempted\<close>.
\<close>

record endpoint =
  outcome :: "request \<Rightarrow> nat \<Rightarrow> attempt"
  unattempted :: "string \<times> bool \<times> string"

text \<open>
  What the node reads from its surroundings: the API key of the configuration file, the
  prompt presets (through \<^verbatim>\<open>get_prompt_content(self.prompt_options, preset)\<close>), the
  identifier the store generates for a new conversation, the endpoint and
  \<^verbatim>\<open>json.dumps\<close> on the table of all conversations.
\<close>

record env =
  api_key :: string
  get_prompt_content :: "string \<Rightarrow> string"
  uuid4 :: string
  network :: endpoint
  json_dumps :: "(string \<times> message list) list \<Rightarrow> string"

text \<open>The five values \<^verbatim>\<open>process_completion_request\<close> returns (\<^verbatim>\<open>RETURN_NAMES\<close>).\<close>

record outputs =
  api_response :: string
  success :: bool
  status_code :: string
  conversation_id_out :: string
  chat_history :: string

section \<open>Python lists as objects\<close>

text \<open>
  \<^verbatim>\<open>conversation_history.append(...)\<close> changes a list object in place, and the same
  object may be held by the store. The lists therefore live in a heap of list objects,
  addressed by numbers: \<open>heap s a\<close> is the contents of the list at address \<open>a\<close>, and
  \<open>fresh\<close> is the next unused address. The field \<open>calls\<close> is a log of the store's
  methods that were invoked, kept to state which of them a run makes.
\<close>

type_synonym addr = nat

datatype call =
  CreateNewConversation string
  | GetHistory string
  | UpdateHistory string
  | GetAllConversations

record state =
  conversations :: "(string \<times> addr) list"
  heap :: "addr \<Rightarrow> message list"
  fresh :: addr
  calls :: "call list"

definition initial_state :: state where
  "initial_state = \<lparr>conversations = [], heap = (\<lambda>_. []), fresh = 0, calls = []\<rparr>"

text \<open>The expression \<^verbatim>\<open>[]\<close>: a new, empty list object.\<close>

definition new_list :: "state \<Rightarrow> addr \<times> state" where
  "new_list s = (fresh s, s\<lparr>heap := (heap s)(fresh s := []), fresh := Suc (fresh s)\<rparr>)"

text \<open>\<^verbatim>\<open>xs.append(m)\<close> on the list object at address \<open>a\<close>.\<close>

definition list_append :: "addr \<Rightarrow> message \<Rightarrow> state \<Rightarrow> state" where
  "list_append a m s = s\<lparr>heap := (heap s)(a := heap s a @ [m])\<rparr>"

section \<open>The conversation store\<close>

text \<open>
  Modelled from the spec: \<^verbatim>\<open>ChatHistoryManager.create_new_conversation\<close>
  (\<^verbatim>\<open>utils/chat_utils.py\<close> is not among the sources). It generates an identifier,
  registers an empty conversation under it and returns the identifier. The identifier
  generated is the argument \<open>nid\<close>; the spec wants it different from every identifier
  in use, which nothing below relies on.
\<close>

definition create_new_conversation :: "string \<Rightarrow> state \<Rightarrow> string \<times> state" where
  "create_new_conversation nid s =
     (let (a, s1) = new_list s
      in (nid, s1\<lparr>conversations := AList.update nid a (conversations s1),
                   calls := calls s1 @ [CreateNewConversation nid]\<rparr>))"

text \<open>
  Modelled from the spec: \<^verbatim>\<open>ChatHistoryManager.get_history\<close>. It returns the
  conversation's messages, and an empty sequence if the identifier is unknown; it does not
  fail. The spec does not say whether the sequence handed out is the list the store holds
  or a copy of it, nor whether the call registers an unknown identifier. The model hands
  out the list the store holds, so that an append by the caller reaches a registered
  conversation at once, and a new list that is not registered for an unknown identifier.
\<close>

definition get_history :: "string \<Rightarrow> state \<Rightarrow> addr \<times> state" where
  "get_history cid s =
     (let s1 = s\<lparr>calls := calls s @ [GetHistory cid]\<rparr>
      in case map_of (conversations s1) cid of
           Some a \<Rightarrow> (a, s1)
         | None \<Rightarrow> new_list s1)"

text \<open>
  Modelled from the spec: \<^verbatim>\<open>ChatHistoryManager.update_history\<close>. It replaces the
  stored sequence for the identifier by the given one, overwriting in full.
\<close>

definition update_history :: "string \<Rightarrow> addr \<Rightarrow> state \<Rightarrow> state" where
  "update_history cid a s =
     s\<lparr>conversations := AList.update cid a (conversations s),
       calls := calls s @ [UpdateHistory cid]\<rparr>"

text \<open>
  Modelled from the spec: \<^verbatim>\<open>ChatHistoryManager.get_all_conversations\<close>. A snapshot
  of all known conversations, each identifier with its messages, in the order the
  identifiers were registered.
\<close>

definition get_all_conversations :: "state \<Rightarrow> (string \<times> message list) list \<times> state" where
  "get_all_conversations s =
     (map (\<lambda>(cid, a). (cid, heap s a)) (conversations s),
      s\<lparr>calls := calls s @ [GetAllConversations]\<rparr>)"

text \<open>
  The stored history of an identifier: the messages a call of \<^verbatim>\<open>get_history\<close> would
  find, without the call.
\<close>

definition stored :: "state \<Rightarrow> string \<Rightarrow> message list" where
  "stored s cid = (case map_of (conversations s) cid of Some a \<Rightarrow> heap s a | None \<Rightarrow> [])"

section \<open>The request helper\<close>

text \<open>
  \<^verbatim>\<open>make_api_request(data, headers, url, max_retries)\<close> of
  \<^verbatim>\<open>utils/api_utils.py\<close> is not among the sources. The spec has it make up to
  \<^verbatim>\<open>max_retries\<close> attempts in total: a successful attempt ends the loop with the
  generated text, \<^verbatim>\<open>True\<close> and the status; a failed attempt is retried until the
  attempts are used up, and then the last failure's status is returned with
  \<^verbatim>\<open>False\<close> and a text that tells the error. It does not touch the store. The
  node's input range for \<^verbatim>\<open>max_retries\<close> is 1 to 10.
\<close>

text \<open>
  Modelled from the spec: the retry loop of \<^verbatim>\<open>make_api_request\<close>. \<open>net k\<close> is the
  outcome of the attempt made after \<open>k\<close> earlier ones, \<open>n\<close> the number of attempts
  left, \<open>prev\<close> the result to return when none is left: the last failure, once an
  attempt has been made. The loop returns the number of attempts made beside the result.
\<close>

fun request_loop ::
  "(nat \<Rightarrow> attempt) \<Rightarrow> nat \<Rightarrow> nat \<Rightarrow> string \<times> bool \<times> string \<Rightarrow> (string \<times> bool \<times> string) \<times> nat"
where
  "request_loop net 0 k prev = (prev, k)"
| "request_loop net (Suc n) k prev =
     (case net k of
        Succeeded text status \<Rightarrow> ((text, True, status), Suc k)
      | Failed text status \<Rightarrow> request_loop net n (Suc k) (text, False, status))"

text \<open>
  Modelled from the spec: \<^verbatim>\<open>make_api_request\<close> with the number of attempts it made,
  at most \<^verbatim>\<open>max_retries\<close>.
\<close>

definition send_request ::
  "endpoint \<Rightarrow> payload \<Rightarrow> (string \<times> string) list \<Rightarrow> string \<Rightarrow> int
     \<Rightarrow> (string \<times> bool \<times> string) \<times> nat"
where
  "send_request net dat hdrs u retries =
     request_loop (outcome net \<lparr>req_data = dat, req_headers = hdrs, req_url = u\<rparr>)
       (nat retries) 0 (unattempted net)"

text \<open>Modelled from the spec: the triple \<^verbatim>\<open>make_api_request\<close> returns.\<close>

definition make_api_request ::
  "endpoint \<Rightarrow> payload \<Rightarrow> (string \<times> string) list \<Rightarrow> string \<Rightarrow> int
     \<Rightarrow> string \<times> bool \<times> string"
where
  "make_api_request net dat hdrs u retries = fst (send_request net dat hdrs u retries)"

text \<open>Modelled from the spec: the number of attempts \<^verbatim>\<open>make_api_request\<close> makes.\<close>

definition attempts_made ::
  "endpoint \<Rightarrow> payload \<Rightarrow> (string \<times> string) list \<Rightarrow> string \<Rightarrow> int \<Rightarrow> nat"
where
  "attempts_made net dat hdrs u retries = snd (send_request net dat hdrs u retries)"

section \<open>The node\<close>

text \<open>The three dict literals of lines 115, 118 and 138.\<close>

definition system_msg :: "string \<Rightarrow> message" where
  "system_msg c = \<lparr>role = ''system'', content = c\<rparr>"

definition user_msg :: "string \<Rightarrow> message" where
  "user_msg c = \<lparr>role = ''user'', content = c\<rparr>"

definition assistant_msg :: "string \<Rightarrow> message" where
  "assistant_msg c = \<lparr>role = ''assistant'', content = c\<rparr>"

definition DEFAULT_PROMPT :: string where
  "DEFAULT_PROMPT = ''Use [system_message] and [user_input]''"

text \<open>Lines 99 to 102: the system message the call uses.\<close>

definition resolved_system_message :: "env \<Rightarrow> inputs \<Rightarrow> string" where
  "resolved_system_message env i =
     (if preset i = DEFAULT_PROMPT then system_message i
      else get_prompt_content env (preset i))"

definition url :: string where
  "url = ''https://api.groq.com/openai/v1/chat/completions''"

definition headers :: "env \<Rightarrow> (string \<times> string) list" where
  "headers env = [(''Authorization'', ''Bearer '' @ api_key env)]"

text \<open>
  Lines 107 to 130 of \<^verbatim>\<open>process_completion_request\<close>: find or create the
  conversation, append the system message to an empty history, append the user message,
  build the request body. The result is the state, the conversation identifier, the
  address of \<^verbatim>\<open>conversation_history\<close> and \<^verbatim>\<open>data\<close>. The body holds the list
  object itself; the helper reads it when it is called, with no change to the list in
  between, so \<open>PMessages\<close> holds its contents at that moment.
\<close>

definition prepare :: "env \<Rightarrow> inputs \<Rightarrow> state \<Rightarrow> state \<times> string \<times> addr \<times> payload" where
  "prepare env i s =
     (let (cid, s1) = (if conversation_id i = []
                       then create_new_conversation (uuid4 env) s
                       else (conversation_id i, s));
          (h, s2) = get_history cid s1;
          s3 = (if heap s2 h = []
                then list_append h (system_msg (resolved_system_message env i)) s2
                else s2);
          s4 = list_append h (user_msg (user_input i)) s3;
          dat = [(''model'', PStr (model i)),
                 (''messages'', PMessages (heap s4 h)),
                 (''temperature'', PFloat (temperature i)),
                 (''max_tokens'', PInt (max_tokens i)),
                 (''top_p'', PFloat (top_p i)),
                 (''seed'', PInt (seed i))];
          dat' = (if stop i \<noteq> [] then AList.update ''stop'' (PStr (stop i)) dat else dat)
      in (s4, cid, h, dat'))"

text \<open>
  The store as it stands when the request is sent, and the body that is passed to
  \<^verbatim>\<open>make_api_request\<close>.
\<close>

definition state_before_request :: "env \<Rightarrow> inputs \<Rightarrow> state \<Rightarrow> state" where
  "state_before_request env i s = fst (prepare env i s)"

definition request_body :: "env \<Rightarrow> inputs \<Rightarrow> state \<Rightarrow> payload" where
  "request_body env i s = snd (snd (snd (prepare env i s)))"

text \<open>
  The whole of \<^verbatim>\<open>process_completion_request\<close>. Seeding the random number
  generators (lines 95 to 97, which return normally for every seed of the input's range
  0 to 4294967295) and printing the request (line 132) touch neither the store nor the
  results and are left out.
\<close>

definition process_completion_request :: "env \<Rightarrow> inputs \<Rightarrow> state \<Rightarrow> state \<times> outputs" where
  "process_completion_request env i s =
     (let (s4, cid, h, dat) = prepare env i s;
          (assistant_message, ok, status) =
             make_api_request (network env) dat (headers env) url (max_retries i);
          s5 = (if ok
                then update_history cid h
                       (list_append h (assistant_msg assistant_message) s4)
                else s4);
          (everything, s6) = get_all_conversations s5
      in (s6, \<lparr>api_response = assistant_message, success = ok, status_code = status,
                conversation_id_out = cid, chat_history = json_dumps env everything\<rparr>))"

text \<open>\<^verbatim>\<open>get_chat_history\<close>, the node's other method: the table of all conversations as text.\<close>

definition get_chat_history :: "env \<Rightarrow> state \<Rightarrow> state \<times> string" where
  "get_chat_history env s =
     (let (all_conversations, s1) = get_all_conversations s
      in (s1, json_dumps env all_conversations))"

text \<open>
  The states the store of one node can be in: \<^verbatim>\<open>__init__\<close> creates it empty, and
  only the node's two methods use it.
\<close>

inductive reachable :: "state \<Rightarrow> bool" where
  reachable_init: "reachable initial_state"
| reachable_step: "reachable s \<Longrightarrow> reachable (fst (process_completion_request env i s))"
| reachable_read: "reachable s \<Longrightarrow> reachable (fst (get_chat_history env s))"

text \<open>
  Two properties of the reachable states: every registered address is allocated and no
  two identifiers hold the same list object.
\<close>

definition well_formed :: "state \<Rightarrow> bool" where
  "well_formed s \<longleftrightarrow>
     (\<forall>c a. map_of (conversations s) c = Some a \<longrightarrow> a < fresh s) \<and>
     (\<forall>c c' a. map_of (conversations s) c = Some a \<longrightarrow>
                map_of (conversations s) c' = Some a \<longrightarrow> c = c')"

text \<open>
  The history a call starts from (empty when a conversation is created for an empty
  identifier), and the history it has built when the request is sent: the system message
  is added to an empty history only, the user message always.
\<close>

definition prior :: "inputs \<Rightarrow> state \<Rightarrow> message list" where
  "prior i s = (if conversation_id i = [] then [] else stored s (conversation_id i))"

definition sent_messages :: "env \<Rightarrow> inputs \<Rightarrow> state \<Rightarrow> message list" where
  "sent_messages env i s =
     prior i s @ (if prior i s = [] then [system_msg (resolved_system_message env i)] else [])
       @ [user_msg (user_input i)]"

section \<open>Concrete surroundings for the examples\<close>

definition demo_inputs :: inputs where
  "demo_inputs =
     \<lparr>model = ''llama3-8b-8192'', preset = DEFAULT_PROMPT, system_message = ''Be brief.'',
      user_input = ''Hello'', temperature = 1, max_tokens = 1024, top_p = 1, seed = 42,
      max_retries = 2, stop = [], json_mode = False, conversation_id = []\<rparr>"

definition always_ok :: "request \<Rightarrow> nat \<Rightarrow> attempt" where
  "always_ok r k = Succeeded ''Hi!'' ''200''"

definition always_down :: "request \<Rightarrow> nat \<Rightarrow> attempt" where
  "always_down r k = Failed ''Service unavailable'' ''503''"

definition down_then_ok :: "request \<Rightarrow> nat \<Rightarrow> attempt" where
  "down_then_ok r k =
     (if k = 0 then Failed ''Service unavailable'' ''503'' else Succeeded ''Hi!'' ''200'')"

definition demo_endpoint :: "(request \<Rightarrow> nat \<Rightarrow> attempt) \<Rightarrow> endpoint" where
  "demo_endpoint net = \<lparr>outcome = net, unattempted = (''No attempt'', False, ''none'')\<rparr>"

definition demo_env :: "(request \<Rightarrow> nat \<Rightarrow> attempt) \<Rightarrow> env" where
  "demo_env net =
     \<lparr>api_key = ''k'', get_prompt_content = (\<lambda>p. ''Preset '' @ p), uuid4 = ''c-1'',
      network = demo_endpoint net, json_dumps = (\<lambda>t. concat (map fst t))\<rparr>"

text \<open>The state after one successful turn of a new conversation.\<close>

definition after_first_turn :: state where
  "after_first_turn = fst (process_completion_request (demo_env always_ok) demo_inputs initial_state)"

text \<open>Further calls: a second turn of that conversation, a turn under an identifier the
  store does not know, a turn with a preset, a store that generates another identifier.\<close>

definition second_turn :: inputs where
  "second_turn = demo_inputs\<lparr>conversation_id := ''c-1'', user_input := ''More''\<rparr>"

definition unknown_turn :: inputs where
  "unknown_turn = demo_inputs\<lparr>conversation_id := ''abc''\<rparr>"

definition preset_turn :: inputs where
  "preset_turn = demo_inputs\<lparr>preset := ''Pirate''\<rparr>"

definition second_env :: env where
  "second_env = (demo_env always_ok)\<lparr>uuid4 := ''c-2''\<rparr>"

definition empty_request :: request where
  "empty_request = \<lparr>req_data = [], req_headers = [], req_url = []\<rparr>"

section \<open>The three ways a call finds its conversation\<close>

lemma prepare_new:
  assumes "conversation_id i = []"
  shows "prepare env i s =
    (s\<lparr>conversations := AList.update (uuid4 env) (fresh s) (conversations s),
       heap := (heap s)(fresh s :=
                 [system_msg (resolved_system_message env i), user_msg (user_input i)]),
       fresh := Suc (fresh s),
       calls := calls s @ [CreateNewConversation (uuid4 env), GetHistory (uuid4 env)]\<rparr>,
     uuid4 env, fresh s, request_body env i s)"
  using assms
  by (simp add: request_body_def prepare_def create_new_conversation_def get_history_def
      new_list_def list_append_def AList.update_conv' Let_def)

lemma prepare_known:
  assumes "conversation_id i \<noteq> []" and "map_of (conversations s) (conversation_id i) = Some a"
  shows "prepare env i s =
    (s\<lparr>heap := (heap s)(a := heap s a
                 @ (if heap s a = [] then [system_msg (resolved_system_message env i)] else [])
                 @ [user_msg (user_input i)]),
       calls := calls s @ [GetHistory (conversation_id i)]\<rparr>,
     conversation_id i, a, request_body env i s)"
  using assms
  by (simp add: request_body_def prepare_def get_history_def new_list_def list_append_def Let_def)

lemma prepare_unknown:
  assumes "conversation_id i \<noteq> []" and "map_of (conversations s) (conversation_id i) = None"
  shows "prepare env i s =
    (s\<lparr>heap := (heap s)(fresh s :=
                 [system_msg (resolved_system_message env i), user_msg (user_input i)]),
       fresh := Suc (fresh s),
       calls := calls s @ [GetHistory (conversation_id i)]\<rparr>,
     conversation_id i, fresh s, request_body env i s)"
  using assms
  by (simp add: request_body_def prepare_def get_history_def new_list_def list_append_def Let_def)

lemma process_by_prepare:
  assumes "prepare env i s = (s4, cid, h, dat)"
    and "make_api_request (network env) dat (headers env) url (max_retries i) = (m, ok, st)"
  shows "process_completion_request env i s =
     (s4\<lparr>conversations := (if ok then AList.update cid h (conversations s4) else conversations s4),
         heap := (if ok then (heap s4)(h := heap s4 h @ [assistant_msg m]) else heap s4),
         calls := calls s4 @ (if ok then [UpdateHistory cid] else []) @ [GetAllConversations]\<rparr>,
      \<lparr>api_response = m, success = ok, status_code = st, conversation_id_out = cid,
       chat_history = json_dumps env
         (map (\<lambda>(c, a). (c, (if ok then (heap s4)(h := heap s4 h @ [assistant_msg m]) else heap s4) a))
              (if ok then AList.update cid h (conversations s4) else conversations s4))\<rparr>)"
  using assms
  by (simp add: process_completion_request_def update_history_def list_append_def
      get_all_conversations_def Let_def)

lemma process_facts:
  obtains s4 cid h m ok st where
    "prepare env i s = (s4, cid, h, request_body env i s)"
    "make_api_request (network env) (request_body env i s) (headers env) url (max_retries i) = (m, ok, st)"
    "cid = (if conversation_id i = [] then uuid4 env else conversation_id i)"
    "heap s4 h = sent_messages env i s"
    "fst (process_completion_request env i s) =
       s4\<lparr>conversations := (if ok then AList.update cid h (conversations s4) else conversations s4),
          heap := (if ok then (heap s4)(h := heap s4 h @ [assistant_msg m]) else heap s4),
          calls := calls s4 @ (if ok then [UpdateHistory cid] else []) @ [GetAllConversations]\<rparr>"
    "api_response (snd (process_completion_request env i s)) = m"
    "success (snd (process_completion_request env i s)) = ok"
    "status_code (snd (process_completion_request env i s)) = st"
    "conversation_id_out (snd (process_completion_request env i s)) = cid"
proof -
  obtain s4 cid h dat where p: "prepare env i s = (s4, cid, h, dat)"
    by (cases "prepare env i s") auto
  then have d: "dat = request_body env i s" by (simp add: request_body_def)
  obtain m ok st where
    r: "make_api_request (network env) dat (headers env) url (max_retries i) = (m, ok, st)"
    by (cases "make_api_request (network env) dat (headers env) url (max_retries i)") auto
  note pr = process_by_prepare [OF p r]
  have c: "cid = (if conversation_id i = [] then uuid4 env else conversation_id i)"
    using p by (auto simp: prepare_def create_new_conversation_def new_list_def Let_def
        split: prod.splits if_splits)
  have hp: "heap s4 h = sent_messages env i s"
  proof (cases "conversation_id i = []")
    case True
    from prepare_new [OF True, of env s] p show ?thesis
      by (auto simp: sent_messages_def prior_def True)
  next
    case False
    show ?thesis
    proof (cases "map_of (conversations s) (conversation_id i)")
      case None
      from prepare_unknown [OF False None, of env] p show ?thesis
        by (auto simp: sent_messages_def prior_def stored_def False None)
    next
      case (Some a)
      from prepare_known [OF False Some, of env] p show ?thesis
        by (auto simp: sent_messages_def prior_def stored_def False Some)
    qed
  qed
  show ?thesis
    by (rule that [of s4 cid h m ok st]) (use p r c hp d in \<open>simp_all add: pr\<close>)
qed

lemma stored_calls [simp]: "stored (s\<lparr>calls := x\<rparr>) c = stored s c"
  by (simp add: stored_def split: option.splits)

lemma stored_after:
  "stored (fst (process_completion_request env i s)) (conversation_id_out (snd (process_completion_request env i s)))
   = (if success (snd (process_completion_request env i s))
      then sent_messages env i s @ [assistant_msg (api_response (snd (process_completion_request env i s)))]
      else if conversation_id i \<noteq> [] \<and> map_of (conversations s) (conversation_id i) = None then []
      else sent_messages env i s)"
proof (rule process_facts [of env i s])
  fix s4 cid h m ok st
  assume p: "prepare env i s = (s4, cid, h, request_body env i s)"
    and hp: "heap s4 h = sent_messages env i s"
    and f: "fst (process_completion_request env i s) =
       s4\<lparr>conversations := (if ok then AList.update cid h (conversations s4) else conversations s4),
          heap := (if ok then (heap s4)(h := heap s4 h @ [assistant_msg m]) else heap s4),
          calls := calls s4 @ (if ok then [UpdateHistory cid] else []) @ [GetAllConversations]\<rparr>"
    and o: "api_response (snd (process_completion_request env i s)) = m"
      "success (snd (process_completion_request env i s)) = ok"
      "conversation_id_out (snd (process_completion_request env i s)) = cid"
  show ?thesis
  proof (cases ok)
    case True
    then show ?thesis using hp by (simp add: f o stored_def AList.update_conv')
  next
    case False
    have "stored s4 cid = (if conversation_id i \<noteq> [] \<and> map_of (conversations s) (conversation_id i) = None then []
      else sent_messages env i s)"
    proof (cases "conversation_id i = []")
      case True
      from prepare_new [OF True, of env s] p hp show ?thesis
        by (auto simp: stored_def AList.update_conv' True)
    next
      case ne: False
      show ?thesis
      proof (cases "map_of (conversations s) (conversation_id i)")
        case None
        from prepare_unknown [OF ne None, of env] p show ?thesis
          by (auto simp: stored_def ne None)
      next
        case (Some a)
        from prepare_known [OF ne Some, of env] p hp show ?thesis
          by (auto simp: stored_def ne Some)
      qed
    qed
    with False show ?thesis by (simp add: f o)
  qed
qed

section \<open>Invariants of the store\<close>

lemma well_formed_initial: "well_formed initial_state"
  by (simp add: well_formed_def initial_state_def)

lemma well_formed_step:
  assumes "well_formed s"
  shows "well_formed (fst (process_completion_request env i s))"
proof (rule process_facts [of env i s])
  fix s4 cid h m ok st
  assume p: "prepare env i s = (s4, cid, h, request_body env i s)"
    and f: "fst (process_completion_request env i s) =
       s4\<lparr>conversations := (if ok then AList.update cid h (conversations s4) else conversations s4),
          heap := (if ok then (heap s4)(h := heap s4 h @ [assistant_msg m]) else heap s4),
          calls := calls s4 @ (if ok then [UpdateHistory cid] else []) @ [GetAllConversations]\<rparr>"
  show ?thesis
  proof (cases "conversation_id i = []")
    case True
    from prepare_new [OF True, of env s] p assms show ?thesis
      by (auto simp: f well_formed_def AList.update_conv' less_Suc_eq split: if_splits)
  next
    case ne: False
    show ?thesis
    proof (cases "map_of (conversations s) (conversation_id i)")
      case None
      from prepare_unknown [OF ne None, of env] p assms show ?thesis
        by (auto simp: f well_formed_def AList.update_conv' less_Suc_eq split: if_splits)
    next
      case (Some a)
      from prepare_known [OF ne Some, of env] p assms Some show ?thesis
        by (auto simp: f well_formed_def AList.update_conv' split: if_splits)
    qed
  qed
qed

lemma get_chat_history_state:
  "fst (get_chat_history env s) = s\<lparr>calls := calls s @ [GetAllConversations]\<rparr>"
  by (simp add: get_chat_history_def get_all_conversations_def)

lemma reachable_well_formed: "reachable s \<Longrightarrow> well_formed s"
proof (induction rule: reachable.induct)
  case reachable_init
  show ?case by (rule well_formed_initial)
next
  case (reachable_step s env i)
  then show ?case by (simp add: well_formed_step)
next
  case (reachable_read s env)
  then show ?case by (simp add: get_chat_history_state well_formed_def)
qed

lemma stored_other:
  assumes "well_formed s"
    and "c \<noteq> conversation_id_out (snd (process_completion_request env i s))"
  shows "map_of (conversations (fst (process_completion_request env i s))) c = map_of (conversations s) c
       \<and> stored (fst (process_completion_request env i s)) c = stored s c"
proof (rule process_facts [of env i s])
  fix s4 cid h m ok st
  assume p: "prepare env i s = (s4, cid, h, request_body env i s)"
    and f: "fst (process_completion_request env i s) =
       s4\<lparr>conversations := (if ok then AList.update cid h (conversations s4) else conversations s4),
          heap := (if ok then (heap s4)(h := heap s4 h @ [assistant_msg m]) else heap s4),
          calls := calls s4 @ (if ok then [UpdateHistory cid] else []) @ [GetAllConversations]\<rparr>"
    and o: "conversation_id_out (snd (process_completion_request env i s)) = cid"
  from assms(2) o have c: "c \<noteq> cid" by simp
  show ?thesis
  proof (cases "conversation_id i = []")
    case True
    from prepare_new [OF True, of env s] p assms(1) c show ?thesis
      by (auto simp: f well_formed_def stored_def AList.update_conv' split: if_splits option.splits)
  next
    case ne: False
    show ?thesis
    proof (cases "map_of (conversations s) (conversation_id i)")
      case None
      from prepare_unknown [OF ne None, of env] p assms(1) c show ?thesis
        by (auto simp: f well_formed_def stored_def AList.update_conv' split: if_splits option.splits)
    next
      case (Some a)
      from prepare_known [OF ne Some, of env] p assms(1) c Some show ?thesis
        by (auto simp: f well_formed_def stored_def AList.update_conv' split: if_splits option.splits)
    qed
  qed
qed

lemma hd_sent_messages:
  "role (hd (sent_messages env i s)) = (if prior i s = [] then ''system'' else role (hd (prior i s)))"
  by (simp add: sent_messages_def system_msg_def)

lemma system_first_step:
  assumes "well_formed s"
    and "\<And>c. stored s c \<noteq> [] \<Longrightarrow> role (hd (stored s c)) = ''system''"
    and "stored (fst (process_completion_request env i s)) c \<noteq> []"
  shows "role (hd (stored (fst (process_completion_request env i s)) c)) = ''system''"
proof (cases "c = conversation_id_out (snd (process_completion_request env i s))")
  case False
  with stored_other [OF assms(1) False] assms(2,3) show ?thesis by simp
next
  case True
  have s: "sent_messages env i s \<noteq> []" by (simp add: sent_messages_def)
  have "role (hd (sent_messages env i s)) = ''system''"
    using assms(2) [of "conversation_id i"] by (auto simp: hd_sent_messages prior_def)
  with assms(3) s show ?thesis
    unfolding True stored_after by (auto split: if_splits)
qed

lemma reachable_system_first:
  "reachable s \<Longrightarrow> stored s c \<noteq> [] \<Longrightarrow> role (hd (stored s c)) = ''system''"
proof (induction arbitrary: c rule: reachable.induct)
  case reachable_init
  then show ?case by (simp add: stored_def initial_state_def)
next
  case (reachable_step s env i)
  from system_first_step [OF reachable_well_formed [OF reachable_step.hyps] reachable_step.IH
      reachable_step.prems]
  show ?case .
next
  case (reachable_read s env)
  then show ?case by (simp add: get_chat_history_state)
qed

lemma reachable_after_first_turn: "reachable after_first_turn"
  unfolding after_first_turn_def by (rule reachable_step [OF reachable_init])

section \<open>The request body\<close>

lemma request_body_eq:
  "request_body env i s =
     [(''model'', PStr (model i)),
      (''messages'', PMessages (sent_messages env i s)),
      (''temperature'', PFloat (temperature i)),
      (''max_tokens'', PInt (max_tokens i)),
      (''top_p'', PFloat (top_p i)),
      (''seed'', PInt (seed i))]
     @ (if stop i = [] then [] else [(''stop'', PStr (stop i))])"
proof (rule process_facts [of env i s])
  fix s4 cid h m ok st
  assume p: "prepare env i s = (s4, cid, h, request_body env i s)"
    and hp: "heap s4 h = sent_messages env i s"
  from p have "request_body env i s =
     (let dat = [(''model'', PStr (model i)), (''messages'', PMessages (heap s4 h)),
                 (''temperature'', PFloat (temperature i)), (''max_tokens'', PInt (max_tokens i)),
                 (''top_p'', PFloat (top_p i)), (''seed'', PInt (seed i))]
      in if stop i \<noteq> [] then AList.update ''stop'' (PStr (stop i)) dat else dat)"
    by (auto simp: prepare_def Let_def split: prod.splits)
  then show ?thesis by (simp add: hp)
qed

lemma prepare_json_mode: "prepare env (i\<lparr>json_mode := b\<rparr>) s = prepare env i s"
  by (simp add: prepare_def resolved_system_message_def cong: if_cong)

section \<open>The retry loop\<close>

lemma request_loop_bounds:
  "k \<le> snd (request_loop net n k prev) \<and> snd (request_loop net n k prev) \<le> k + n"
proof (induction n arbitrary: k prev)
  case 0
  show ?case by simp
next
  case (Suc n)
  show ?case
  proof (cases "net k")
    case (Succeeded t st)
    then show ?thesis by simp
  next
    case (Failed t st)
    from Suc [of "Suc k" "(t, False, st)"] Failed show ?thesis by simp
  qed
qed

lemma request_loop_all_failed:
  assumes "\<forall>j<n. failed (net (k + j))"
  shows "request_loop net n k prev =
           (if n = 0 then prev
            else (attempt_text (net (k + n - 1)), False, attempt_status (net (k + n - 1))),
            k + n)"
  using assms
proof (induction n arbitrary: k prev)
  case 0
  then show ?case by simp
next
  case (Suc n)
  from Suc.prems have "failed (net k)" by fastforce
  then obtain t st where f: "net k = Failed t st" by (cases "net k") auto
  have "\<forall>j<n. failed (net (Suc k + j))"
  proof (intro allI impI)
    fix j assume "j < n"
    then have "Suc j < Suc n" by simp
    with Suc.prems have "failed (net (k + Suc j))" by blast
    then show "failed (net (Suc k + j))" by simp
  qed
  from Suc.IH [OF this, of "(t, False, st)"] f show ?case by (cases n) simp_all
qed

lemma request_loop_first_success:
  assumes "\<forall>k<j. failed (net (k0 + k))" and "net (k0 + j) = Succeeded t st" and "j < n"
  shows "request_loop net n k0 prev = ((t, True, st), Suc (k0 + j))"
  using assms
proof (induction j arbitrary: n k0 prev)
  case 0
  then obtain n' where "n = Suc n'" by (cases n) auto
  with 0 show ?case by simp
next
  case (Suc j)
  from Suc.prems(3) obtain n' where n: "n = Suc n'" and j: "j < n'" by (cases n) auto
  from Suc.prems(1) have "failed (net (k0 + 0))" by blast
  then obtain t0 st0 where f: "net k0 = Failed t0 st0" by (cases "net k0") auto
  have a: "\<forall>k<j. failed (net (Suc k0 + k))"
  proof (intro allI impI)
    fix k assume "k < j"
    then have "Suc k < Suc j" by simp
    with Suc.prems(1) have "failed (net (k0 + Suc k))" by blast
    then show "failed (net (Suc k0 + k))" by simp
  qed
  from Suc.prems(2) have b: "net (Suc k0 + j) = Succeeded t st" by simp
  from Suc.IH [OF a b j, of "(t0, False, st0)"] f n show ?case by simp
qed

section \<open>A new conversation\<close>

text \<open>
  Claim C1. For a new conversation (the identifier given is empty, or nothing or an empty
  history is stored for it), a call whose request succeeds leaves exactly the system
  message, the user message and the assistant's answer stored under the identifier it
  returns, in this order, and the system message occurs in it exactly once.
\<close>

theorem new_conversation_history:
  assumes "success (snd (process_completion_request env i s))"
    and "conversation_id i = [] \<or> stored s (conversation_id i) = []"
  shows "stored (fst (process_completion_request env i s))
            (conversation_id_out (snd (process_completion_request env i s)))
         = [system_msg (resolved_system_message env i), user_msg (user_input i),
            assistant_msg (api_response (snd (process_completion_request env i s)))]
       \<and> filter (\<lambda>m. role m = ''system'')
            (stored (fst (process_completion_request env i s))
               (conversation_id_out (snd (process_completion_request env i s))))
         = [system_msg (resolved_system_message env i)]"
proof -
  from assms(2) have "prior i s = []" by (auto simp: prior_def)
  then have "sent_messages env i s
               = [system_msg (resolved_system_message env i), user_msg (user_input i)]"
    by (simp add: sent_messages_def)
  with assms(1) show ?thesis
    by (simp add: stored_after system_msg_def user_msg_def assistant_msg_def)
qed

theorem new_conversation_history_witness:
  "success (snd (process_completion_request (demo_env always_ok) demo_inputs initial_state))
   \<and> conversation_id demo_inputs = []
   \<and> stored (fst (process_completion_request (demo_env always_ok) demo_inputs initial_state)) ''c-1''
       = [system_msg ''Be brief.'', user_msg ''Hello'', assistant_msg ''Hi!'']"
proof -
  have a: "success (snd (process_completion_request (demo_env always_ok) demo_inputs initial_state))"
    by code_simp
  have b: "conversation_id demo_inputs = []" by (simp add: demo_inputs_def)
  have c: "conversation_id_out
             (snd (process_completion_request (demo_env always_ok) demo_inputs initial_state)) = ''c-1''"
    by code_simp
  have d: "api_response
             (snd (process_completion_request (demo_env always_ok) demo_inputs initial_state)) = ''Hi!''"
    by code_simp
  have e: "resolved_system_message (demo_env always_ok) demo_inputs = ''Be brief.''"
    by code_simp
  have f: "user_input demo_inputs = ''Hello''" by (simp add: demo_inputs_def)
  from new_conversation_history [OF a disjI1 [OF b]] show ?thesis using a b by (simp add: c d e f)
qed

section \<open>The system message\<close>

text \<open>
  Claim C4. A call with an identifier whose stored history is not empty inserts no system
  message: the stored history afterwards is the one before, followed by the user message
  and, on success, the assistant's answer, so it holds the same system messages as
  before. A system message is only ever put at the head of an empty history, so in every
  state the store can reach, a stored history that is not empty starts with a message of
  role \<^verbatim>\<open>system\<close>.
\<close>

theorem no_second_system_message:
  "(conversation_id i \<noteq> [] \<and> stored s (conversation_id i) \<noteq> [] \<longrightarrow>
      stored (fst (process_completion_request env i s)) (conversation_id i)
        = stored s (conversation_id i) @ [user_msg (user_input i)]
          @ (if success (snd (process_completion_request env i s))
             then [assistant_msg (api_response (snd (process_completion_request env i s)))]
             else [])
      \<and> filter (\<lambda>m. role m = ''system'')
            (stored (fst (process_completion_request env i s)) (conversation_id i))
        = filter (\<lambda>m. role m = ''system'') (stored s (conversation_id i)))
   \<and> (reachable s \<longrightarrow> (\<forall>c. stored s c \<noteq> [] \<longrightarrow> role (hd (stored s c)) = ''system''))"
proof (intro conjI impI allI)
  assume a: "conversation_id i \<noteq> [] \<and> stored s (conversation_id i) \<noteq> []"
  then have k: "map_of (conversations s) (conversation_id i) \<noteq> None"
    by (auto simp: stored_def split: option.splits)
  have c: "conversation_id_out (snd (process_completion_request env i s)) = conversation_id i"
    using a by (rule_tac process_facts [of env i s]) simp
  from a have "sent_messages env i s = stored s (conversation_id i) @ [user_msg (user_input i)]"
    by (simp add: sent_messages_def prior_def)
  with stored_after [of env i s] a k
  show e: "stored (fst (process_completion_request env i s)) (conversation_id i)
        = stored s (conversation_id i) @ [user_msg (user_input i)]
          @ (if success (snd (process_completion_request env i s))
             then [assistant_msg (api_response (snd (process_completion_request env i s)))]
             else [])"
    by (auto simp: c)
  show "filter (\<lambda>m. role m = ''system'')
            (stored (fst (process_completion_request env i s)) (conversation_id i))
        = filter (\<lambda>m. role m = ''system'') (stored s (conversation_id i))"
    unfolding e by (simp add: user_msg_def assistant_msg_def)
next
  fix c
  assume "reachable s" "stored s c \<noteq> []"
  then show "role (hd (stored s c)) = ''system''" by (rule reachable_system_first)
qed

theorem no_second_system_message_witness:
  "conversation_id second_turn \<noteq> []
   \<and> stored after_first_turn (conversation_id second_turn) \<noteq> []
   \<and> reachable after_first_turn
   \<and> stored (fst (process_completion_request (demo_env always_ok) second_turn after_first_turn)) ''c-1''
       = [system_msg ''Be brief.'', user_msg ''Hello'', assistant_msg ''Hi!'', user_msg ''More'',
          assistant_msg ''Hi!'']
   \<and> role (hd (stored after_first_turn ''c-1'')) = ''system''"
proof -
  have a: "conversation_id second_turn \<noteq> []" by (simp add: second_turn_def)
  have b: "stored after_first_turn (conversation_id second_turn) \<noteq> []" by code_simp
  have b': "stored after_first_turn ''c-1'' \<noteq> []" by code_simp
  have c: "conversation_id second_turn = ''c-1''" "user_input second_turn = ''More''"
    by (simp_all add: second_turn_def)
  have d: "success (snd (process_completion_request (demo_env always_ok) second_turn after_first_turn))"
    by code_simp
  have e: "api_response
             (snd (process_completion_request (demo_env always_ok) second_turn after_first_turn))
           = ''Hi!''"
    by code_simp
  have f: "stored after_first_turn ''c-1''
             = [system_msg ''Be brief.'', user_msg ''Hello'', assistant_msg ''Hi!'']"
    by code_simp
  note t = no_second_system_message
             [where i = second_turn and s = after_first_turn and env = "demo_env always_ok"]
  from t a b have s1:
    "stored (fst (process_completion_request (demo_env always_ok) second_turn after_first_turn))
       (conversation_id second_turn)
     = stored after_first_turn (conversation_id second_turn) @ [user_msg (user_input second_turn)]
       @ (if success (snd (process_completion_request (demo_env always_ok) second_turn after_first_turn))
          then [assistant_msg (api_response
                  (snd (process_completion_request (demo_env always_ok) second_turn after_first_turn)))]
          else [])"
    by blast
  from t reachable_after_first_turn b'
  have s2: "role (hd (stored after_first_turn ''c-1'')) = ''system''"
    by blast
  from s1 s2 a b reachable_after_first_turn show ?thesis by (simp add: c d e f)
qed

section \<open>What is sent\<close>

text \<open>
  Claim C5. The body passed to the request helper has exactly the keys \<^verbatim>\<open>model\<close>,
  \<^verbatim>\<open>messages\<close>, \<^verbatim>\<open>temperature\<close>, \<^verbatim>\<open>max_tokens\<close>, \<^verbatim>\<open>top_p\<close> and \<^verbatim>\<open>seed\<close>,
  followed by \<^verbatim>\<open>stop\<close> exactly when the stop input is not empty; each key holds its
  input as it was given, \<^verbatim>\<open>stop\<close> the stop string itself, and \<^verbatim>\<open>messages\<close> the
  whole conversation history with the new user message at its end. The first three
  results of the call are what the helper returns for this body.
\<close>

theorem request_body_keys:
  "map fst (request_body env i s) =
      [''model'', ''messages'', ''temperature'', ''max_tokens'', ''top_p'', ''seed'']
      @ (if stop i = [] then [] else [''stop''])
   \<and> map_of (request_body env i s) ''model'' = Some (PStr (model i))
   \<and> map_of (request_body env i s) ''messages''
       = Some (PMessages
           (prior i s
            @ (if prior i s = [] then [system_msg (resolved_system_message env i)] else [])
            @ [user_msg (user_input i)]))
   \<and> map_of (request_body env i s) ''temperature'' = Some (PFloat (temperature i))
   \<and> map_of (request_body env i s) ''max_tokens'' = Some (PInt (max_tokens i))
   \<and> map_of (request_body env i s) ''top_p'' = Some (PFloat (top_p i))
   \<and> map_of (request_body env i s) ''seed'' = Some (PInt (seed i))
   \<and> map_of (request_body env i s) ''stop''
       = (if stop i = [] then None else Some (PStr (stop i)))
   \<and> (api_response (snd (process_completion_request env i s)),
       success (snd (process_completion_request env i s)),
       status_code (snd (process_completion_request env i s)))
      = make_api_request (network env) (request_body env i s) (headers env) url (max_retries i)"
proof -
  have "(api_response (snd (process_completion_request env i s)),
       success (snd (process_completion_request env i s)),
       status_code (snd (process_completion_request env i s)))
      = make_api_request (network env) (request_body env i s) (headers env) url (max_retries i)"
    by (rule process_facts [of env i s]) simp
  then show ?thesis by (simp add: request_body_eq sent_messages_def)
qed

theorem request_body_keys_witness:
  "map fst (request_body (demo_env always_ok) (demo_inputs\<lparr>stop := ''END''\<rparr>) initial_state)
     = [''model'', ''messages'', ''temperature'', ''max_tokens'', ''top_p'', ''seed'', ''stop'']
   \<and> map_of (request_body (demo_env always_ok) (demo_inputs\<lparr>stop := ''END''\<rparr>) initial_state)
        ''stop''
     = Some (PStr ''END'')
   \<and> map_of (request_body (demo_env always_ok) (demo_inputs\<lparr>stop := ''END''\<rparr>) initial_state)
        ''messages''
     = Some (PMessages [system_msg ''Be brief.'', user_msg ''Hello''])
   \<and> map fst (request_body (demo_env always_ok) demo_inputs initial_state)
     = [''model'', ''messages'', ''temperature'', ''max_tokens'', ''top_p'', ''seed'']
   \<and> map_of (request_body (demo_env always_ok) demo_inputs initial_state) ''stop'' = None"
proof -
  have a: "stop (demo_inputs\<lparr>stop := ''END''\<rparr>) = ''END''" "stop demo_inputs = []"
    "user_input (demo_inputs\<lparr>stop := ''END''\<rparr>) = ''Hello''"
    by (simp_all add: demo_inputs_def)
  have b: "prior (demo_inputs\<lparr>stop := ''END''\<rparr>) initial_state = []"
    by code_simp
  have c: "resolved_system_message (demo_env always_ok) (demo_inputs\<lparr>stop := ''END''\<rparr>)
             = ''Be brief.''"
    by code_simp
  from request_body_keys [where env = "demo_env always_ok"
        and i = "demo_inputs\<lparr>stop := ''END''\<rparr>" and s = initial_state]
    request_body_keys [where env = "demo_env always_ok" and i = demo_inputs and s = initial_state]
  show ?thesis by (simp add: a b c)
qed

section \<open>The identifier returned\<close>

text \<open>
  Claim C6. A call with a non-empty identifier returns that identifier. A call with an
  empty identifier returns the identifier the store generated in
  \<^verbatim>\<open>create_new_conversation\<close>; when the request succeeded, the store knows this
  identifier afterwards and \<^verbatim>\<open>get_history\<close> on it returns the stored history, which
  is not empty: the system message, the user message and the assistant's answer.
\<close>

theorem returned_conversation_id:
  "(conversation_id i \<noteq> [] \<longrightarrow>
      conversation_id_out (snd (process_completion_request env i s)) = conversation_id i)
   \<and> (conversation_id i = [] \<longrightarrow>
      conversation_id_out (snd (process_completion_request env i s)) = uuid4 env
      \<and> calls (state_before_request env i s)
          = calls s @ [CreateNewConversation (uuid4 env), GetHistory (uuid4 env)]
      \<and> (success (snd (process_completion_request env i s)) \<longrightarrow>
           map_of (conversations (fst (process_completion_request env i s))) (uuid4 env) \<noteq> None
           \<and> heap (snd (get_history (uuid4 env) (fst (process_completion_request env i s))))
                  (fst (get_history (uuid4 env) (fst (process_completion_request env i s))))
              = [system_msg (resolved_system_message env i), user_msg (user_input i),
                 assistant_msg (api_response (snd (process_completion_request env i s)))]))"
proof (intro conjI impI)
  assume "conversation_id i \<noteq> []"
  then show "conversation_id_out (snd (process_completion_request env i s)) = conversation_id i"
    by (rule_tac process_facts [of env i s]) simp
next
  assume e: "conversation_id i = []"
  then show c: "conversation_id_out (snd (process_completion_request env i s)) = uuid4 env"
    by (rule_tac process_facts [of env i s]) simp
  show "calls (state_before_request env i s)
          = calls s @ [CreateNewConversation (uuid4 env), GetHistory (uuid4 env)]"
    by (simp add: state_before_request_def prepare_new [OF e])
  assume ok: "success (snd (process_completion_request env i s))"
  from e have "sent_messages env i s
                 = [system_msg (resolved_system_message env i), user_msg (user_input i)]"
    by (simp add: sent_messages_def prior_def)
  with stored_after [of env i s] ok c
  have st: "stored (fst (process_completion_request env i s)) (uuid4 env)
     = [system_msg (resolved_system_message env i), user_msg (user_input i),
        assistant_msg (api_response (snd (process_completion_request env i s)))]"
    by simp
  then show k: "map_of (conversations (fst (process_completion_request env i s))) (uuid4 env) \<noteq> None"
    by (auto simp: stored_def split: option.splits)
  with st show "heap (snd (get_history (uuid4 env) (fst (process_completion_request env i s))))
                  (fst (get_history (uuid4 env) (fst (process_completion_request env i s))))
              = [system_msg (resolved_system_message env i), user_msg (user_input i),
                 assistant_msg (api_response (snd (process_completion_request env i s)))]"
    by (auto simp: get_history_def stored_def Let_def)
qed

theorem returned_conversation_id_witness:
  "conversation_id demo_inputs = []
   \<and> success (snd (process_completion_request (demo_env always_ok) demo_inputs initial_state))
   \<and> conversation_id_out
       (snd (process_completion_request (demo_env always_ok) demo_inputs initial_state)) = ''c-1''
   \<and> heap (snd (get_history ''c-1''
                  (fst (process_completion_request (demo_env always_ok) demo_inputs initial_state))))
        (fst (get_history ''c-1''
                  (fst (process_completion_request (demo_env always_ok) demo_inputs initial_state))))
       = [system_msg ''Be brief.'', user_msg ''Hello'', assistant_msg ''Hi!'']
   \<and> conversation_id unknown_turn \<noteq> []
   \<and> conversation_id_out
       (snd (process_completion_request (demo_env always_ok) unknown_turn initial_state)) = ''abc''"
proof -
  have a: "conversation_id demo_inputs = []" "user_input demo_inputs = ''Hello''"
    by (simp_all add: demo_inputs_def)
  have b: "success (snd (process_completion_request (demo_env always_ok) demo_inputs initial_state))"
    by code_simp
  have c: "uuid4 (demo_env always_ok) = ''c-1''" by (simp add: demo_env_def)
  have d: "api_response
             (snd (process_completion_request (demo_env always_ok) demo_inputs initial_state)) = ''Hi!''"
    by code_simp
  have e: "resolved_system_message (demo_env always_ok) demo_inputs = ''Be brief.''"
    by code_simp
  have f: "conversation_id unknown_turn = ''abc''" by (simp add: unknown_turn_def demo_inputs_def)
  from returned_conversation_id
         [where i = demo_inputs and env = "demo_env always_ok" and s = initial_state]
    returned_conversation_id
         [where i = unknown_turn and env = "demo_env always_ok" and s = initial_state] a b
  show ?thesis by (simp add: c d e f)
qed

section \<open>Retries\<close>

text \<open>
  Claim C7. For every retry limit the helper never makes more than \<^verbatim>\<open>max_retries\<close>
  attempts. Given \<^verbatim>\<open>max_retries\<close> failures in a row (at least one, the input's least
  value being 1) it makes exactly \<^verbatim>\<open>max_retries\<close> attempts and returns
  \<^verbatim>\<open>False\<close> with the status of the last failure. It stops at the first attempt
  that succeeds and returns \<^verbatim>\<open>True\<close> with the text and status of that attempt, so
  there is no retry after a success: a success at once takes one attempt, and a failure
  followed by a success, where the limit allows a second attempt, takes exactly 2
  attempts and returns the second attempt's content.
\<close>

theorem retry_attempts:
  "attempts_made net dat hdrs u r \<le> nat r
   \<and> (1 \<le> r
        \<and> (\<forall>k < nat r. failed (outcome net \<lparr>req_data = dat, req_headers = hdrs, req_url = u\<rparr> k)) \<longrightarrow>
        attempts_made net dat hdrs u r = nat r
        \<and> \<not> fst (snd (make_api_request net dat hdrs u r))
        \<and> snd (snd (make_api_request net dat hdrs u r))
            = attempt_status
                (outcome net \<lparr>req_data = dat, req_headers = hdrs, req_url = u\<rparr> (nat r - 1)))
   \<and> (j < nat r
        \<and> (\<forall>k < j. failed (outcome net \<lparr>req_data = dat, req_headers = hdrs, req_url = u\<rparr> k))
        \<and> outcome net \<lparr>req_data = dat, req_headers = hdrs, req_url = u\<rparr> j = Succeeded t st \<longrightarrow>
        attempts_made net dat hdrs u r = Suc j
        \<and> make_api_request net dat hdrs u r = (t, True, st))
   \<and> (2 \<le> r
        \<and> failed (outcome net \<lparr>req_data = dat, req_headers = hdrs, req_url = u\<rparr> 0)
        \<and> outcome net \<lparr>req_data = dat, req_headers = hdrs, req_url = u\<rparr> 1 = Succeeded t st \<longrightarrow>
        attempts_made net dat hdrs u r = 2
        \<and> make_api_request net dat hdrs u r = (t, True, st))"
proof (intro conjI impI)
  show "attempts_made net dat hdrs u r \<le> nat r"
    using request_loop_bounds
            [of 0 "outcome net \<lparr>req_data = dat, req_headers = hdrs, req_url = u\<rparr>" "nat r"
                "unattempted net"]
    by (simp add: attempts_made_def send_request_def)
next
  assume a: "1 \<le> r
    \<and> (\<forall>k < nat r. failed (outcome net \<lparr>req_data = dat, req_headers = hdrs, req_url = u\<rparr> k))"
  then have "\<forall>j < nat r.
      failed (outcome net \<lparr>req_data = dat, req_headers = hdrs, req_url = u\<rparr> (0 + j))"
    by simp
  note l = request_loop_all_failed [OF this, of "unattempted net"]
  from a have n: "nat r \<noteq> 0" by simp
  show "attempts_made net dat hdrs u r = nat r"
    by (simp add: attempts_made_def send_request_def l)
  from n show "\<not> fst (snd (make_api_request net dat hdrs u r))"
    by (simp add: make_api_request_def send_request_def l)
  from n show "snd (snd (make_api_request net dat hdrs u r))
      = attempt_status
          (outcome net \<lparr>req_data = dat, req_headers = hdrs, req_url = u\<rparr> (nat r - 1))"
    by (simp add: make_api_request_def send_request_def l)
next
  assume a: "j < nat r
    \<and> (\<forall>k < j. failed (outcome net \<lparr>req_data = dat, req_headers = hdrs, req_url = u\<rparr> k))
    \<and> outcome net \<lparr>req_data = dat, req_headers = hdrs, req_url = u\<rparr> j = Succeeded t st"
  then have f: "\<forall>k < j.
      failed (outcome net \<lparr>req_data = dat, req_headers = hdrs, req_url = u\<rparr> (0 + k))"
    and s: "outcome net \<lparr>req_data = dat, req_headers = hdrs, req_url = u\<rparr> (0 + j) = Succeeded t st"
    and b: "j < nat r"
    by simp_all
  note l = request_loop_first_success [OF f s b, of "unattempted net"]
  show "attempts_made net dat hdrs u r = Suc j"
    by (simp add: attempts_made_def send_request_def l)
  show "make_api_request net dat hdrs u r = (t, True, st)"
    by (simp add: make_api_request_def send_request_def l)
next
  assume a: "2 \<le> r
    \<and> failed (outcome net \<lparr>req_data = dat, req_headers = hdrs, req_url = u\<rparr> 0)
    \<and> outcome net \<lparr>req_data = dat, req_headers = hdrs, req_url = u\<rparr> 1 = Succeeded t st"
  then have f: "\<forall>k < Suc 0.
      failed (outcome net \<lparr>req_data = dat, req_headers = hdrs, req_url = u\<rparr> (0 + k))"
    and s: "outcome net \<lparr>req_data = dat, req_headers = hdrs, req_url = u\<rparr> (0 + Suc 0)
              = Succeeded t st"
    and b: "Suc 0 < nat r"
    by simp_all
  note l = request_loop_first_success [OF f s b, of "unattempted net"]
  show "attempts_made net dat hdrs u r = 2"
    by (simp add: attempts_made_def send_request_def l)
  show "make_api_request net dat hdrs u r = (t, True, st)"
    by (simp add: make_api_request_def send_request_def l)
qed

theorem retry_attempts_witness:
  "failed (always_down empty_request 0) \<and> failed (always_down empty_request 1)
   \<and> failed (always_down empty_request 2)
   \<and> attempts_made (demo_endpoint always_down) [] [] [] 3 = 3
   \<and> \<not> fst (snd (make_api_request (demo_endpoint always_down) [] [] [] 3))
   \<and> snd (snd (make_api_request (demo_endpoint always_down) [] [] [] 3)) = ''503''
   \<and> failed (down_then_ok empty_request 0)
   \<and> down_then_ok empty_request 1 = Succeeded ''Hi!'' ''200''
   \<and> attempts_made (demo_endpoint down_then_ok) [] [] [] 3 = 2
   \<and> make_api_request (demo_endpoint down_then_ok) [] [] [] 3 = (''Hi!'', True, ''200'')
   \<and> always_ok empty_request 0 = Succeeded ''Hi!'' ''200''
   \<and> attempts_made (demo_endpoint always_ok) [] [] [] 3 = 1
   \<and> make_api_request (demo_endpoint always_ok) [] [] [] 3 = (''Hi!'', True, ''200'')"
proof -
  have o: "outcome (demo_endpoint always_down) = always_down"
    "outcome (demo_endpoint down_then_ok) = down_then_ok"
    "outcome (demo_endpoint always_ok) = always_ok"
    by (simp_all add: demo_endpoint_def)
  have a: "\<forall>k < nat 3. failed (always_down \<lparr>req_data = [], req_headers = [], req_url = []\<rparr> k)"
    by (simp add: always_down_def)
  have b: "failed (down_then_ok \<lparr>req_data = [], req_headers = [], req_url = []\<rparr> 0)"
    "down_then_ok \<lparr>req_data = [], req_headers = [], req_url = []\<rparr> 1 = Succeeded ''Hi!'' ''200''"
    by (simp_all add: down_then_ok_def)
  have c: "always_ok \<lparr>req_data = [], req_headers = [], req_url = []\<rparr> 0 = Succeeded ''Hi!'' ''200''"
    by (simp add: always_ok_def)
  from retry_attempts
         [where net = "demo_endpoint always_down" and dat = "[]" and hdrs = "[]" and u = "[]"
            and r = 3] a
  have x: "attempts_made (demo_endpoint always_down) [] [] [] 3 = 3
     \<and> \<not> fst (snd (make_api_request (demo_endpoint always_down) [] [] [] 3))
     \<and> snd (snd (make_api_request (demo_endpoint always_down) [] [] [] 3))
        = attempt_status (always_down \<lparr>req_data = [], req_headers = [], req_url = []\<rparr> (nat 3 - 1))"
    by (simp add: o)
  from retry_attempts
         [where net = "demo_endpoint down_then_ok" and dat = "[]" and hdrs = "[]" and u = "[]"
            and r = 3 and t = "''Hi!''" and st = "''200''"] b
  have y: "attempts_made (demo_endpoint down_then_ok) [] [] [] 3 = 2
     \<and> make_api_request (demo_endpoint down_then_ok) [] [] [] 3 = (''Hi!'', True, ''200'')"
    by (simp add: o)
  from retry_attempts
         [where net = "demo_endpoint always_ok" and dat = "[]" and hdrs = "[]" and u = "[]"
            and r = 3 and j = 0 and t = "''Hi!''" and st = "''200''"] c
  have z: "attempts_made (demo_endpoint always_ok) [] [] [] 3 = 1
     \<and> make_api_request (demo_endpoint always_ok) [] [] [] 3 = (''Hi!'', True, ''200'')"
    by (simp add: o)
  from x y z b c show ?thesis by (simp add: empty_request_def always_down_def)
qed

section \<open>Inputs without effect\<close>

text \<open>
  Claim C8. The input \<^verbatim>\<open>json_mode\<close> has no effect: two calls that differ in it alone,
  from the same store and with the same surroundings, send the same request body and end
  with the same store and the same five results.
\<close>

theorem json_mode_ignored:
  "request_body env (i\<lparr>json_mode := b\<rparr>) s = request_body env i s
   \<and> process_completion_request env (i\<lparr>json_mode := b\<rparr>) s = process_completion_request env i s"
  by (simp add: request_body_def process_completion_request_def prepare_json_mode)

theorem json_mode_ignored_witness:
  "process_completion_request (demo_env always_ok) (demo_inputs\<lparr>json_mode := True\<rparr>) initial_state
     = process_completion_request (demo_env always_ok) demo_inputs initial_state
   \<and> request_body (demo_env always_ok) (demo_inputs\<lparr>json_mode := True\<rparr>) initial_state
     = request_body (demo_env always_ok) demo_inputs initial_state"
  using json_mode_ignored
          [where env = "demo_env always_ok" and i = demo_inputs and b = True and s = initial_state]
  by simp

text \<open>
  Claim C9. When the preset is not the default prompt, the input \<^verbatim>\<open>system_message\<close>
  has no effect: the system message used is the one \<^verbatim>\<open>get_prompt_content\<close> gives for
  the preset, and two calls that differ in \<^verbatim>\<open>system_message\<close> alone send the same
  request body and end with the same store and the same results.
\<close>

theorem preset_overrides_system_message:
  assumes "preset i \<noteq> DEFAULT_PROMPT"
  shows "resolved_system_message env (i\<lparr>system_message := m\<rparr>) = get_prompt_content env (preset i)
   \<and> request_body env (i\<lparr>system_message := m\<rparr>) s = request_body env i s
   \<and> process_completion_request env (i\<lparr>system_message := m\<rparr>) s
       = process_completion_request env i s"
proof -
  have r: "resolved_system_message env (i\<lparr>system_message := m\<rparr>) = resolved_system_message env i"
    using assms by (simp add: resolved_system_message_def)
  have p: "prepare env (i\<lparr>system_message := m\<rparr>) s = prepare env i s"
    by (simp add: prepare_def r cong: if_cong)
  from assms show ?thesis
    by (simp add: request_body_def process_completion_request_def p r)
      (simp add: resolved_system_message_def)
qed

theorem preset_overrides_system_message_witness:
  "preset preset_turn \<noteq> DEFAULT_PROMPT
   \<and> resolved_system_message (demo_env always_ok) (preset_turn\<lparr>system_message := ''Ignore me''\<rparr>)
       = ''Preset Pirate''
   \<and> process_completion_request (demo_env always_ok) (preset_turn\<lparr>system_message := ''Ignore me''\<rparr>)
         initial_state
       = process_completion_request (demo_env always_ok) preset_turn initial_state"
proof -
  have a: "preset preset_turn \<noteq> DEFAULT_PROMPT"
    by (simp add: preset_turn_def demo_inputs_def DEFAULT_PROMPT_def)
  have b: "get_prompt_content (demo_env always_ok) (preset preset_turn) = ''Preset Pirate''"
    by (simp add: preset_turn_def demo_env_def)
  from preset_overrides_system_message
         [OF a, where env = "demo_env always_ok" and m = "''Ignore me''" and s = initial_state] a
  show ?thesis by (simp add: b)
qed

section \<open>The other conversations\<close>

text \<open>
  Claim C10. A call changes at most the conversation under the identifier it returns (the
  one given, or the one generated): in every state the store can reach, for every other
  identifier the store holds the same list object with the same messages before and
  after the call.
\<close>

theorem other_conversations_unchanged:
  assumes "reachable s"
    and "c \<noteq> conversation_id_out (snd (process_completion_request env i s))"
  shows "stored (fst (process_completion_request env i s)) c = stored s c
       \<and> map_of (conversations (fst (process_completion_request env i s))) c
           = map_of (conversations s) c"
  using stored_other [OF reachable_well_formed [OF assms(1)] assms(2)] by simp

theorem other_conversations_unchanged_witness:
  "reachable after_first_turn
   \<and> ''c-1'' \<noteq> conversation_id_out
                 (snd (process_completion_request second_env demo_inputs after_first_turn))
   \<and> stored (fst (process_completion_request second_env demo_inputs after_first_turn)) ''c-1''
       = [system_msg ''Be brief.'', user_msg ''Hello'', assistant_msg ''Hi!'']
   \<and> stored (fst (process_completion_request second_env demo_inputs after_first_turn)) ''c-2''
       = [system_msg ''Be brief.'', user_msg ''Hello'', assistant_msg ''Hi!'']"
proof -
  have a: "''c-1'' \<noteq> conversation_id_out
                       (snd (process_completion_request second_env demo_inputs after_first_turn))"
    by code_simp
  have b: "stored after_first_turn ''c-1''
             = [system_msg ''Be brief.'', user_msg ''Hello'', assistant_msg ''Hi!'']"
    by code_simp
  have c: "stored (fst (process_completion_request second_env demo_inputs after_first_turn)) ''c-2''
       = [system_msg ''Be brief.'', user_msg ''Hello'', assistant_msg ''Hi!'']"
    by code_simp
  from other_conversations_unchanged [OF reachable_after_first_turn a] a reachable_after_first_turn c
  show ?thesis by (simp add: b)
qed

end
